theory Spec2Isabelle
  imports Complex_Main "HOL-Library.Multiset" "HOL-Library.Char_ord" "HOL-Library.List_Lexorder"
    "HOL-Library.Product_Lexorder"
begin

section \<open>Numbers and missing values\<close>

text \<open>
  The tables of \<^verbatim>\<open>sales_data_analysis.py\<close> are pandas data frames. A numeric cell is
  modelled as an exact rational, a missing cell (NaN) as \<open>None\<close>. The arithmetic of the
  program is therefore read without floating-point rounding error.
\<close>

type_synonym num = rat

text \<open>
  Python's \<^verbatim>\<open>round(x)\<close> on a float rounds to the nearest integer, and a value exactly
  half way between two integers to the even one.
\<close>

definition py_round :: "num \<Rightarrow> int" where
  "py_round x =
     (let f = \<lfloor>x\<rfloor>; d = x - of_int f
      in if d < 1 / 2 then f else if 1 / 2 < d then f + 1 else if even f then f else f + 1)"

text \<open>\<^verbatim>\<open>DataFrame.round(2)\<close>: two decimal places, half to even.\<close>

definition round2 :: "num \<Rightarrow> num" where
  "round2 x = of_int (py_round (x * 100)) / 100"

text \<open>\<^verbatim>\<open>Series.sum()\<close> skips missing values; the sum of nothing is 0.\<close>

definition present :: "'a option list \<Rightarrow> 'a list" where
  "present xs = map the (filter (\<lambda>x. x \<noteq> None) xs)"

definition series_sum :: "num option list \<Rightarrow> num" where
  "series_sum xs = sum_list (present xs)"

text \<open>\<^verbatim>\<open>Series.mean()\<close> skips missing values; the mean of nothing is NaN.\<close>

definition series_mean :: "num option list \<Rightarrow> num option" where
  "series_mean xs =
     (if present xs = [] then None
      else Some (sum_list (present xs) / of_nat (length (present xs))))"

text \<open>\<^verbatim>\<open>count\<close>: the number of values that are not missing.\<close>

definition series_count :: "'a option list \<Rightarrow> nat" where
  "series_count xs = length (present xs)"

text \<open>Elementwise product of two columns: missing if either factor is missing.\<close>

definition mul_na :: "num option \<Rightarrow> num option \<Rightarrow> num option" where
  "mul_na a b = (case (a, b) of (Some x, Some y) \<Rightarrow> Some (x * y) | _ \<Rightarrow> None)"

section \<open>The transaction table\<close>

text \<open>
  A cell of the \<^verbatim>\<open>Date\<close> column is the text read from the file, a parsed timestamp
  (after \<^verbatim>\<open>pd.to_datetime\<close>), or missing (NaN before parsing, NaT after).
\<close>

datatype cell_date = RawDate string | Timestamp int | NaT

record row =
  Date :: cell_date
  ProductID :: "string option"
  ProductName :: "string option"
  Category :: "string option"
  Region :: "string option"
  Salesperson :: "string option"
  Quantity :: "num option"
  UnitPrice :: "num option"
  TotalPrice :: "num option"
  Week :: "nat option"

type_synonym table = "row list"

section \<open>Cleaning: quantity imputation (step 5 of \<^verbatim>\<open>load_and_clean_data\<close>)\<close>

text \<open>
  The rows selected by
  \<^verbatim>\<open>(df['ProductID'] == product_id) & df['Quantity'].notna()\<close>.
  A missing product identifier is NaN, which equals nothing, itself included.
\<close>

definition is_peer :: "string option \<Rightarrow> row \<Rightarrow> bool" where
  "is_peer product_id r \<longleftrightarrow>
     product_id \<noteq> None \<and> ProductID r = product_id \<and> Quantity r \<noteq> None"

definition peer_quantities :: "table \<Rightarrow> string option \<Rightarrow> num option list" where
  "peer_quantities t product_id = map Quantity (filter (is_peer product_id) t)"

text \<open>
  One pass of the loop body, for the row at position \<open>idx\<close>: the mean is taken over the
  table as it is now, and the row is written only when the mean is not NaN.
\<close>

definition impute_at :: "table \<Rightarrow> nat \<Rightarrow> table" where
  "impute_at t idx =
     (let product_id = ProductID (t ! idx);
          avg_qty = series_mean (peer_quantities t product_id)
      in case avg_qty of
           None \<Rightarrow> t
         | Some a \<Rightarrow> t[idx := (t ! idx)\<lparr>Quantity := Some (of_int (py_round a))\<rparr>])"

text \<open>The \<^verbatim>\<open>for idx in ...\<close> loop: each pass sees the table the passes before it left.\<close>

fun impute_loop :: "nat list \<Rightarrow> table \<Rightarrow> table" where
  "impute_loop [] t = t"
| "impute_loop (idx # rest) t = impute_loop rest (impute_at t idx)"

text \<open>
  The positions with a missing quantity are fixed before the loop starts
  (\<^verbatim>\<open>self.cleaned_df[missing_qty].index\<close>).
\<close>

definition missing_qty :: "table \<Rightarrow> nat list" where
  "missing_qty t = filter (\<lambda>i. Quantity (t ! i) = None) [0..<length t]"

definition impute_quantities :: "table \<Rightarrow> table" where
  "impute_quantities t =
     (if missing_qty t \<noteq> [] then impute_loop (missing_qty t) t else t)"

text \<open>
  What the loop amounts to: a row with a missing quantity receives the rounded mean of the
  quantities that were present, for its product, in the table the loop started from.
\<close>

definition fill_row :: "table \<Rightarrow> row \<Rightarrow> row" where
  "fill_row t0 r =
     (if Quantity r = None
      then (case series_mean (peer_quantities t0 (ProductID r)) of
              None \<Rightarrow> r
            | Some a \<Rightarrow> r\<lparr>Quantity := Some (of_int (py_round a))\<rparr>)
      else r)"

section \<open>Errors and the libraries the program calls\<close>

text \<open>
  An exception of the program is a value; a method returns \<open>Inl e\<close> where the Python
  raises \<open>e\<close> and \<open>Inr v\<close> where it returns \<open>v\<close>.
\<close>

datatype py_error =
  FileNotFoundError | ParserError | ValueError | IndexError | KeyError | EOFError | SMTPException

text \<open>
  What pandas and numpy do inside is not part of the program and is taken as a parameter:
  \<^item> \<open>to_datetime\<close> is \<^verbatim>\<open>pd.to_datetime\<close> on a whole column (it raises on text it
    cannot parse);
  \<^item> \<open>isocalendar_week\<close> is \<^verbatim>\<open>.dt.isocalendar().week\<close> of one timestamp;
  \<^item> \<open>argsort\<close> is numpy's \<^verbatim>\<open>ndarray.argsort(kind='quicksort')\<close>, the default kind of
    \<^verbatim>\<open>sort_values\<close>.
\<close>

record library =
  to_datetime :: "cell_date list \<Rightarrow> py_error + cell_date list"
  isocalendar_week :: "int \<Rightarrow> nat"
  argsort :: "num list \<Rightarrow> nat list"

text \<open>
  The contract of an argsort: the positions of the input, each once, in an order that
  lists the values ascending. Nothing is promised about equal values.
\<close>

definition is_argsort :: "(num list \<Rightarrow> nat list) \<Rightarrow> bool" where
  "is_argsort f \<longleftrightarrow>
     (\<forall>xs. mset (f xs) = mset [0..<length xs] \<and> sorted (map (\<lambda>i. xs ! i) (f xs)))"

section \<open>Strings\<close>

text \<open>Text is modelled as ASCII; the case rules below are Python's on ASCII letters.\<close>

definition is_lower :: "char \<Rightarrow> bool" where
  "is_lower c \<longleftrightarrow> CHR ''a'' \<le> c \<and> c \<le> CHR ''z''"

definition is_upper :: "char \<Rightarrow> bool" where
  "is_upper c \<longleftrightarrow> CHR ''A'' \<le> c \<and> c \<le> CHR ''Z''"

definition is_digit :: "char \<Rightarrow> bool" where
  "is_digit c \<longleftrightarrow> CHR ''0'' \<le> c \<and> c \<le> CHR ''9''"

definition to_upper :: "char \<Rightarrow> char" where
  "to_upper c = (if is_lower c then char_of (of_char c - (32::nat)) else c)"

definition to_lower :: "char \<Rightarrow> char" where
  "to_lower c = (if is_upper c then char_of (of_char c + (32::nat)) else c)"

text \<open>
  \<^verbatim>\<open>str.title()\<close>: a letter that follows a letter is lowered, a letter that follows
  anything else is raised.
\<close>

fun title_from :: "bool \<Rightarrow> string \<Rightarrow> string" where
  "title_from previous_is_cased [] = []"
| "title_from previous_is_cased (c # cs) =
     (if is_lower c then (if previous_is_cased then c else to_upper c) # title_from True cs
      else if is_upper c then (if previous_is_cased then to_lower c else c) # title_from True cs
      else c # title_from False cs)"

definition str_title :: "string \<Rightarrow> string" where
  "str_title s = title_from False s"

text \<open>\<^verbatim>\<open>pat in s\<close>, which is what \<^verbatim>\<open>str.contains('E\\+')\<close> tests for the literal \<^verbatim>\<open>E+\<close>.\<close>

definition starts_with :: "string \<Rightarrow> string \<Rightarrow> bool" where
  "starts_with pat s \<longleftrightarrow> take (length pat) s = pat"

fun str_contains :: "string \<Rightarrow> string \<Rightarrow> bool" where
  "str_contains pat [] = (pat = [])"
| "str_contains pat (c # cs) = (starts_with pat (c # cs) \<or> str_contains pat cs)"

text \<open>
  \<^verbatim>\<open>s.replace('.csv', new)\<close>: scanning from the left, each occurrence found is replaced
  and the scan goes on after it.
\<close>

fun replace_csv :: "string \<Rightarrow> string \<Rightarrow> string" where
  "replace_csv new [] = []"
| "replace_csv new (c # cs) =
     (if starts_with ''.csv'' (c # cs) then new @ replace_csv new (drop 3 cs)
      else c # replace_csv new cs)"

section \<open>Cleaning: the other steps of \<^verbatim>\<open>load_and_clean_data\<close>\<close>

text \<open>Step 1: a date written in scientific notation becomes the fixed date.\<close>

definition invalid_date :: "row \<Rightarrow> bool" where
  "invalid_date r = (case Date r of RawDate s \<Rightarrow> str_contains ''E+'' s | _ \<Rightarrow> False)"

definition fix_dates :: "table \<Rightarrow> table" where
  "fix_dates t =
     (if list_ex invalid_date t
      then map (\<lambda>r. if invalid_date r then r\<lparr>Date := RawDate ''2025-09-22''\<rparr> else r) t
      else t)"

text \<open>
  Step 2: the column is parsed as a whole. Assigning a column of another length to the
  frame raises.
\<close>

definition parse_dates :: "library \<Rightarrow> table \<Rightarrow> py_error + table" where
  "parse_dates lib t =
     (case to_datetime lib (map Date t) of
        Inl e \<Rightarrow> Inl e
      | Inr ds \<Rightarrow>
          if length ds \<noteq> length t then Inl ValueError
          else Inr (map2 (\<lambda>r d. r\<lparr>Date := d\<rparr>) t ds))"

text \<open>Step 3: title case for category, product name and salesperson.\<close>

definition normalize_text :: "table \<Rightarrow> table" where
  "normalize_text t =
     map (\<lambda>r. r\<lparr>Category := map_option str_title (Category r),
                ProductName := map_option str_title (ProductName r),
                Salesperson := map_option str_title (Salesperson r)\<rparr>) t"

text \<open>Step 4: rows of the placeholder product are dropped.\<close>

definition invalid_product :: "row \<Rightarrow> bool" where
  "invalid_product r \<longleftrightarrow> ProductID r = Some ''P0000''"

definition remove_invalid_products :: "table \<Rightarrow> table" where
  "remove_invalid_products t =
     (if list_ex invalid_product t then filter (\<lambda>r. \<not> invalid_product r) t else t)"

text \<open>Step 6: the total is recomputed for every row.\<close>

definition recompute_total :: "table \<Rightarrow> table" where
  "recompute_total t = map (\<lambda>r. r\<lparr>TotalPrice := mul_na (Quantity r) (UnitPrice r)\<rparr>) t"

text \<open>Step 7: a missing or empty salesperson becomes \<^verbatim>\<open>Unknown\<close>.\<close>

definition missing_sales :: "row \<Rightarrow> bool" where
  "missing_sales r \<longleftrightarrow> Salesperson r = None \<or> Salesperson r = Some []"

definition fill_salesperson :: "table \<Rightarrow> table" where
  "fill_salesperson t =
     (if list_ex missing_sales t
      then map (\<lambda>r. if missing_sales r then r\<lparr>Salesperson := Some ''Unknown''\<rparr> else r) t
      else t)"

text \<open>The table as the imputation loop receives it (steps 1 to 4).\<close>

definition before_imputation :: "library \<Rightarrow> table \<Rightarrow> py_error + table" where
  "before_imputation lib t =
     (case parse_dates lib (fix_dates t) of
        Inl e \<Rightarrow> Inl e
      | Inr t1 \<Rightarrow> Inr (remove_invalid_products (normalize_text t1)))"

text \<open>Steps 1 to 7 on the table read from the file.\<close>

definition clean_table :: "library \<Rightarrow> table \<Rightarrow> py_error + table" where
  "clean_table lib t =
     (case before_imputation lib t of
        Inl e \<Rightarrow> Inl e
      | Inr t4 \<Rightarrow> Inr (fill_salesperson (recompute_total (impute_quantities t4))))"

section \<open>The analysis results\<close>

text \<open>The scalar block \<^verbatim>\<open>analysis_results['basic_stats']\<close>.\<close>

record stats =
  total_sales :: num
  total_quantity :: num
  avg_order_value :: "num option"
  total_orders :: nat
  date_start :: cell_date
  date_end :: cell_date

text \<open>
  One row of a grouped table: the group's key (the index of the frame) and the four
  columns, in the order the program names them: summed revenue, mean order value, order
  count, summed quantity.
\<close>

record 'k agg_row =
  group_key :: 'k
  revenue_sum :: num
  revenue_mean :: "num option"
  order_count :: nat
  quantity_sum :: num

record 'k trend_row =
  trend_key :: 'k
  trend_revenue :: num
  trend_quantity :: num

text \<open>The dictionary \<^verbatim>\<open>analysis_results\<close>; \<open>None\<close> is a key not set.\<close>

record results =
  basic_stats :: "stats option"
  category_analysis :: "string agg_row list option"
  region_analysis :: "string agg_row list option"
  salesperson_analysis :: "string agg_row list option"
  top_products :: "(string \<times> string) agg_row list option"
  daily_trends :: "int trend_row list option"
  weekly_analysis :: "nat trend_row list option"

definition no_results :: results where
  "no_results = \<lparr>basic_stats = None, category_analysis = None, region_analysis = None,
     salesperson_analysis = None, top_products = None, daily_trends = None,
     weekly_analysis = None\<rparr>"

section \<open>Aggregation (\<^verbatim>\<open>analyze_data\<close>)\<close>

text \<open>\<^verbatim>\<open>min\<close> and \<^verbatim>\<open>max\<close> of the date column skip NaT; of nothing they are NaT.\<close>

definition timestamps :: "table \<Rightarrow> int list" where
  "timestamps t = concat (map (\<lambda>r. case Date r of Timestamp x \<Rightarrow> [x] | _ \<Rightarrow> []) t)"

definition date_min :: "table \<Rightarrow> cell_date" where
  "date_min t = (if timestamps t = [] then NaT else Timestamp (Min (set (timestamps t))))"

definition date_max :: "table \<Rightarrow> cell_date" where
  "date_max t = (if timestamps t = [] then NaT else Timestamp (Max (set (timestamps t))))"

definition compute_basic_stats :: "table \<Rightarrow> stats" where
  "compute_basic_stats t =
     \<lparr>total_sales = series_sum (map TotalPrice t),
      total_quantity = series_sum (map Quantity t),
      avg_order_value = series_mean (map TotalPrice t),
      total_orders = length t,
      date_start = date_min t,
      date_end = date_max t\<rparr>"

text \<open>
  \<^verbatim>\<open>groupby\<close>: one group for each key that occurs, the keys ascending; a row whose key is
  missing belongs to no group.
\<close>

definition group_keys :: "('k::linorder) option list \<Rightarrow> 'k list" where
  "group_keys ks = sort (remdups (present ks))"

definition group_rows :: "(row \<Rightarrow> 'k option) \<Rightarrow> table \<Rightarrow> 'k \<Rightarrow> table" where
  "group_rows key t k = filter (\<lambda>r. key r = Some k) t"

text \<open>
  \<^verbatim>\<open>.agg({'TotalPrice': ['sum', 'mean', 'count'], 'Quantity': 'sum'}).round(2)\<close>:
  the float columns are rounded, the count is an integer column and is not.
\<close>

definition group_agg :: "(row \<Rightarrow> ('k::linorder) option) \<Rightarrow> table \<Rightarrow> 'k agg_row list" where
  "group_agg key t =
     map (\<lambda>k. \<lparr>group_key = k,
               revenue_sum = round2 (series_sum (map TotalPrice (group_rows key t k))),
               revenue_mean = map_option round2 (series_mean (map TotalPrice (group_rows key t k))),
               order_count = series_count (map TotalPrice (group_rows key t k)),
               quantity_sum = round2 (series_sum (map Quantity (group_rows key t k)))\<rparr>)
         (group_keys (map key t))"

definition group_trend :: "(row \<Rightarrow> ('k::linorder) option) \<Rightarrow> table \<Rightarrow> 'k trend_row list" where
  "group_trend key t =
     map (\<lambda>k. \<lparr>trend_key = k,
               trend_revenue = round2 (series_sum (map TotalPrice (group_rows key t k))),
               trend_quantity = round2 (series_sum (map Quantity (group_rows key t k)))\<rparr>)
         (group_keys (map key t))"

text \<open>
  \<^verbatim>\<open>sort_values(by, ascending=False)\<close>. pandas computes the order in \<^verbatim>\<open>nargsort\<close>: the
  values and their positions are reversed, argsorted ascending, and the result is reversed
  again. No summed revenue is NaN, so no position is set aside.
\<close>

definition nargsort_desc :: "library \<Rightarrow> num list \<Rightarrow> nat list" where
  "nargsort_desc lib items =
     (let idx = [0..<length items];
          non_nans = rev items;
          non_nan_idx = rev idx;
          indexer = map (\<lambda>j. non_nan_idx ! j) (argsort lib non_nans)
      in rev indexer)"

definition sort_values_desc :: "library \<Rightarrow> 'k agg_row list \<Rightarrow> 'k agg_row list" where
  "sort_values_desc lib rows = map (\<lambda>i. rows ! i) (nargsort_desc lib (map revenue_sum rows))"

text \<open>The grouping keys of the six tables.\<close>

definition product_key :: "row \<Rightarrow> (string \<times> string) option" where
  "product_key r =
     (case (ProductID r, ProductName r) of (Some i, Some n) \<Rightarrow> Some (i, n) | _ \<Rightarrow> None)"

definition date_key :: "row \<Rightarrow> int option" where
  "date_key r = (case Date r of Timestamp x \<Rightarrow> Some x | _ \<Rightarrow> None)"

definition add_week :: "library \<Rightarrow> table \<Rightarrow> table" where
  "add_week lib t = map (\<lambda>r. r\<lparr>Week := map_option (isocalendar_week lib) (date_key r)\<rparr>) t"

text \<open>The dictionary that \<^verbatim>\<open>analyze_data\<close> leaves, as one value.\<close>

definition analyze_table :: "library \<Rightarrow> table \<Rightarrow> results" where
  "analyze_table lib t =
     \<lparr>basic_stats = Some (compute_basic_stats t),
      category_analysis = Some (sort_values_desc lib (group_agg Category t)),
      region_analysis = Some (sort_values_desc lib (group_agg Region t)),
      salesperson_analysis = Some (sort_values_desc lib (group_agg Salesperson t)),
      top_products = Some (take 10 (sort_values_desc lib (group_agg product_key t))),
      daily_trends = Some (group_trend date_key t),
      weekly_analysis = Some (group_trend Week (add_week lib t))\<rparr>"

section \<open>Files, the analyzer object and its methods\<close>

text \<open>
  The rendered report. python-docx lays it out; what the model keeps is what the layout is
  computed from: the time of generation and the tables and scalars printed.
\<close>

record document =
  doc_generated :: int
  doc_stats :: stats
  doc_category :: "string agg_row list"
  doc_region :: "string agg_row list"
  doc_salesperson :: "string agg_row list"
  doc_products :: "(string \<times> string) agg_row list"

text \<open>A file holds a table (what \<^verbatim>\<open>pd.read_csv\<close> reads from it) or a rendered report.\<close>

datatype disk_file = CsvFile table | DocxFile document

type_synonym filesystem = "string \<rightharpoonup> disk_file"

text \<open>The fields of a \<^verbatim>\<open>SalesDataAnalyzer\<close>.\<close>

record analyzer =
  csv_file_path :: string
  df :: "table option"
  cleaned_df :: "table option"
  analysis_results :: results

definition init_analyzer :: "string \<Rightarrow> analyzer" where
  "init_analyzer path =
     \<lparr>csv_file_path = path, df = None, cleaned_df = None, analysis_results = no_results\<rparr>"

definition read_csv :: "filesystem \<Rightarrow> string \<Rightarrow> py_error + table" where
  "read_csv files path =
     (case files path of
        None \<Rightarrow> Inl FileNotFoundError
      | Some (CsvFile t) \<Rightarrow> Inr t
      | Some (DocxFile d) \<Rightarrow> Inl ParserError)"

definition load_and_clean_data :: "library \<Rightarrow> filesystem \<Rightarrow> analyzer \<Rightarrow> py_error + analyzer" where
  "load_and_clean_data lib files self =
     (case read_csv files (csv_file_path self) of
        Inl e \<Rightarrow> Inl e
      | Inr t \<Rightarrow>
          (case clean_table lib t of
             Inl e \<Rightarrow> Inl e
           | Inr c \<Rightarrow> Inr (self\<lparr>df := Some t, cleaned_df := Some c\<rparr>)))"

text \<open>
  \<^verbatim>\<open>analyze_data\<close>: the only check is that a cleaned table exists. Each key of the
  dictionary is assigned in turn, and the frame gains its \<^verbatim>\<open>Week\<close> column before the
  weekly table is grouped.
\<close>

definition analyze_data :: "library \<Rightarrow> analyzer \<Rightarrow> py_error + analyzer" where
  "analyze_data lib self =
     (case cleaned_df self of
        None \<Rightarrow> Inl ValueError
      | Some t \<Rightarrow>
          (let r1 = (analysis_results self)\<lparr>basic_stats := Some (compute_basic_stats t)\<rparr>;
               r2 = r1\<lparr>category_analysis := Some (sort_values_desc lib (group_agg Category t))\<rparr>;
               r3 = r2\<lparr>region_analysis := Some (sort_values_desc lib (group_agg Region t))\<rparr>;
               r4 = r3\<lparr>salesperson_analysis :=
                        Some (sort_values_desc lib (group_agg Salesperson t))\<rparr>;
               r5 = r4\<lparr>top_products :=
                        Some (take 10 (sort_values_desc lib (group_agg product_key t)))\<rparr>;
               r6 = r5\<lparr>daily_trends := Some (group_trend date_key t)\<rparr>;
               t' = add_week lib t;
               r7 = r6\<lparr>weekly_analysis := Some (group_trend Week t')\<rparr>
           in Inr (self\<lparr>cleaned_df := Some t', analysis_results := r7\<rparr>)))"

text \<open>\<^verbatim>\<open>strftime\<close> raises on NaT.\<close>

definition strftime :: "cell_date \<Rightarrow> py_error + int" where
  "strftime d = (case d of Timestamp x \<Rightarrow> Inr x | _ \<Rightarrow> Inl ValueError)"

text \<open>
  \<^verbatim>\<open>analysis_results[name]\<close> followed by \<^verbatim>\<open>.index[0]\<close>: KeyError for a key not set,
  IndexError for an empty table.
\<close>

definition first_row :: "'a list option \<Rightarrow> py_error + 'a" where
  "first_row tab =
     (case tab of None \<Rightarrow> Inl KeyError | Some [] \<Rightarrow> Inl IndexError | Some (x # xs) \<Rightarrow> Inr x)"

definition docx_path_of :: "string \<Rightarrow> string" where
  "docx_path_of path = replace_csv ''_sales_report.docx'' path"

text \<open>
  \<^verbatim>\<open>generate_word_report\<close>, at clock reading \<open>now\<close>: the checks and reads that can raise,
  in the order the method makes them, then the file is saved at the derived path and the
  path returned.
\<close>

definition generate_word_report ::
  "int \<Rightarrow> filesystem \<Rightarrow> analyzer \<Rightarrow> py_error + (string \<times> filesystem)" where
  "generate_word_report now files self =
     (let res = analysis_results self in
      if res = no_results then Inl ValueError
      else case basic_stats res of
        None \<Rightarrow> Inl KeyError
      | Some bs \<Rightarrow>
        (case strftime (date_start bs) of Inl e \<Rightarrow> Inl e | Inr _ \<Rightarrow>
         case strftime (date_end bs) of Inl e \<Rightarrow> Inl e | Inr _ \<Rightarrow>
         case first_row (category_analysis res) of Inl e \<Rightarrow> Inl e | Inr _ \<Rightarrow>
         case first_row (region_analysis res) of Inl e \<Rightarrow> Inl e | Inr _ \<Rightarrow>
         case first_row (salesperson_analysis res) of Inl e \<Rightarrow> Inl e | Inr _ \<Rightarrow>
         case first_row (top_products res) of Inl e \<Rightarrow> Inl e | Inr _ \<Rightarrow>
           (let doc = \<lparr>doc_generated = now, doc_stats = bs,
                       doc_category = the (category_analysis res),
                       doc_region = the (region_analysis res),
                       doc_salesperson = the (salesperson_analysis res),
                       doc_products = the (top_products res)\<rparr>;
                docx_file_path = docx_path_of (csv_file_path self)
            in Inr (docx_file_path, files(docx_file_path \<mapsto> DocxFile doc)))))"

text \<open>
  \<^verbatim>\<open>run_full_analysis\<close>: the three methods in sequence; the result is the report's path
  and the dictionary.
\<close>

definition run_full_analysis ::
  "library \<Rightarrow> int \<Rightarrow> filesystem \<Rightarrow> analyzer
     \<Rightarrow> py_error + ((string \<times> results) \<times> filesystem \<times> analyzer)" where
  "run_full_analysis lib now files self =
     (case load_and_clean_data lib files self of
        Inl e \<Rightarrow> Inl e
      | Inr s1 \<Rightarrow>
        (case analyze_data lib s1 of
           Inl e \<Rightarrow> Inl e
         | Inr s2 \<Rightarrow>
           (case generate_word_report now files s2 of
              Inl e \<Rightarrow> Inl e
            | Inr (docx_path, files') \<Rightarrow>
                Inr ((docx_path, analysis_results s2), files', s2))))"

section \<open>Delivery (\<^verbatim>\<open>send_email_with_report\<close>)\<close>

datatype subject = GivenSubject string | RangeSubject int int | DatedSubject int | WeeklySubject int

text \<open>
  The HTML body: the fixed sentence when there is no scalar block, else the scalars, the
  first row of each grouped table that is set, and the time of generation.
\<close>

datatype email_body =
  PlainBody
| SummaryBody stats "string agg_row option" "string agg_row option" "string agg_row option" int

record mail =
  mail_from :: string
  mail_to :: "string list"
  mail_subject :: subject
  mail_body :: email_body
  mail_attachment :: disk_file
  mail_filename :: string

text \<open>
  What the SMTP server does is a parameter: whether it accepts the connection, the TLS
  upgrade, the credentials, the message and the goodbye. Every call the program makes to it
  is recorded, in order, whether it succeeds or not.
\<close>

record network =
  connect_ok :: "string \<Rightarrow> int \<Rightarrow> bool"
  starttls_ok :: bool
  login_ok :: "string \<Rightarrow> string \<Rightarrow> bool"
  sendmail_ok :: "mail \<Rightarrow> bool"
  quit_ok :: bool

datatype net_event = Connect string int | StartTLS | Login string string | SendMail mail | Quit

record world =
  files :: filesystem
  net_log :: "net_event list"

definition top_of :: "'a list option \<Rightarrow> py_error + 'a option" where
  "top_of tab =
     (case tab of None \<Rightarrow> Inr None | Some [] \<Rightarrow> Inl IndexError | Some (x # xs) \<Rightarrow> Inr (Some x))"

definition create_email_body :: "int \<Rightarrow> results \<Rightarrow> py_error + email_body" where
  "create_email_body now res =
     (case basic_stats res of
        None \<Rightarrow> Inr PlainBody
      | Some bs \<Rightarrow>
        (case strftime (date_start bs) of Inl e \<Rightarrow> Inl e | Inr _ \<Rightarrow>
         case strftime (date_end bs) of Inl e \<Rightarrow> Inl e | Inr _ \<Rightarrow>
         case top_of (category_analysis res) of Inl e \<Rightarrow> Inl e | Inr c \<Rightarrow>
         case top_of (region_analysis res) of Inl e \<Rightarrow> Inl e | Inr r \<Rightarrow>
         case top_of (salesperson_analysis res) of Inl e \<Rightarrow> Inl e | Inr p \<Rightarrow>
           Inr (SummaryBody bs c r p now)))"

definition default_subject :: "int \<Rightarrow> results \<Rightarrow> py_error + subject" where
  "default_subject now res =
     (case basic_stats res of
        None \<Rightarrow> Inr (DatedSubject now)
      | Some bs \<Rightarrow>
        (case strftime (date_start bs) of Inl e \<Rightarrow> Inl e | Inr a \<Rightarrow>
         case strftime (date_end bs) of Inl e \<Rightarrow> Inl e | Inr b \<Rightarrow> Inr (RangeSubject a b)))"

text \<open>The calls on the SMTP connection, from \<^verbatim>\<open>smtplib.SMTP(...)\<close> to \<^verbatim>\<open>quit()\<close>.\<close>

definition smtp_session ::
  "network \<Rightarrow> string \<Rightarrow> int \<Rightarrow> string \<Rightarrow> string \<Rightarrow> mail \<Rightarrow> net_event list
     \<Rightarrow> (py_error + unit) \<times> net_event list" where
  "smtp_session nw host port user password m trace =
     (let trace1 = trace @ [Connect host port] in
      if \<not> connect_ok nw host port then (Inl SMTPException, trace1) else
      let trace2 = trace1 @ [StartTLS] in
      if \<not> starttls_ok nw then (Inl SMTPException, trace2) else
      let trace3 = trace2 @ [Login user password] in
      if \<not> login_ok nw user password then (Inl SMTPException, trace3) else
      let trace4 = trace3 @ [SendMail m] in
      if \<not> sendmail_ok nw m then (Inl SMTPException, trace4) else
      let trace5 = trace4 @ [Quit] in
      if \<not> quit_ok nw then (Inl SMTPException, trace5) else (Inr (), trace5))"

text \<open>\<^verbatim>\<open>os.path.basename\<close>: what follows the last slash.\<close>

definition basename :: "string \<Rightarrow> string" where
  "basename path = rev (takeWhile (\<lambda>c. c \<noteq> CHR ''/'') (rev path))"

text \<open>The body of the \<^verbatim>\<open>try\<close> block.\<close>

definition send_email_try ::
  "network \<Rightarrow> int \<Rightarrow> world \<Rightarrow> analyzer \<Rightarrow> string \<Rightarrow> string \<Rightarrow> string \<Rightarrow> string list
     \<Rightarrow> string \<Rightarrow> int \<Rightarrow> subject option \<Rightarrow> (py_error + unit) \<times> world" where
  "send_email_try nw now w self docx_file_path sender_email sender_password recipient_emails
       smtp_server smtp_port subj =
     (case files w docx_file_path of
        None \<Rightarrow> (Inl FileNotFoundError, w)
      | Some attachment \<Rightarrow>
        (case (case subj of Some s \<Rightarrow> Inr s
                          | None \<Rightarrow> default_subject now (analysis_results self)) of
           Inl e \<Rightarrow> (Inl e, w)
         | Inr s \<Rightarrow>
           (case create_email_body now (analysis_results self) of
              Inl e \<Rightarrow> (Inl e, w)
            | Inr body \<Rightarrow>
              (let msg = \<lparr>mail_from = sender_email, mail_to = recipient_emails,
                          mail_subject = s, mail_body = body, mail_attachment = attachment,
                          mail_filename = basename docx_file_path\<rparr>;
                   (r, trace) = smtp_session nw smtp_server smtp_port sender_email
                                sender_password msg (net_log w)
               in (r, w\<lparr>net_log := trace\<rparr>)))))"

text \<open>
  \<^verbatim>\<open>send_email_with_report\<close>: \<^verbatim>\<open>except Exception\<close> turns every exception of the block
  into the return value \<^verbatim>\<open>False\<close>.
\<close>

definition send_email_with_report ::
  "network \<Rightarrow> int \<Rightarrow> world \<Rightarrow> analyzer \<Rightarrow> string \<Rightarrow> string \<Rightarrow> string \<Rightarrow> string list
     \<Rightarrow> string \<Rightarrow> int \<Rightarrow> subject option \<Rightarrow> (py_error + bool) \<times> world" where
  "send_email_with_report nw now w self docx_file_path sender_email sender_password
       recipient_emails smtp_server smtp_port subj =
     (case send_email_try nw now w self docx_file_path sender_email sender_password
             recipient_emails smtp_server smtp_port subj of
        (Inl e, w') \<Rightarrow> (Inr False, w')
      | (Inr u, w') \<Rightarrow> (Inr True, w'))"

section \<open>The entry point (\<^verbatim>\<open>main\<close>)\<close>

text \<open>
  \<^verbatim>\<open>re.match\<close> against
  \<^verbatim>\<open>^[a-zA-Z0-9._%+-]+@[a-zA-Z0-9.-]+\.[a-zA-Z]{2,}$\<close>.
  No class of the pattern holds \<^verbatim>\<open>@\<close>, so the local part ends at the first \<^verbatim>\<open>@\<close>; the
  last class holds no dot, so the final dot of the pattern is the last dot of the text;
  and \<^verbatim>\<open>$\<close> also matches just before a newline that ends the text.
\<close>

definition is_alpha :: "char \<Rightarrow> bool" where
  "is_alpha c \<longleftrightarrow> is_lower c \<or> is_upper c"

definition local_char :: "char \<Rightarrow> bool" where
  "local_char c \<longleftrightarrow> is_alpha c \<or> is_digit c \<or> c \<in> set ''._%+-''"

definition domain_char :: "char \<Rightarrow> bool" where
  "domain_char c \<longleftrightarrow> is_alpha c \<or> is_digit c \<or> c \<in> set ''.-''"

definition strip_final_newline :: "string \<Rightarrow> string" where
  "strip_final_newline s = (if s \<noteq> [] \<and> last s = CHR 0x0A then butlast s else s)"

definition email_match :: "string \<Rightarrow> bool" where
  "email_match s =
     (let body = strip_final_newline s;
          local = takeWhile (\<lambda>c. c \<noteq> CHR ''@'') body;
          rest = drop (Suc (length local)) body;
          tld = rev (takeWhile (\<lambda>c. c \<noteq> CHR ''.'') (rev rest));
          dom = take (length rest - Suc (length tld)) rest
      in CHR ''@'' \<in> set body \<and> local \<noteq> [] \<and> list_all local_char local
         \<and> CHR ''.'' \<in> set rest \<and> dom \<noteq> [] \<and> list_all domain_char dom
         \<and> 2 \<le> length tld \<and> list_all is_alpha tld)"

text \<open>\<^verbatim>\<open>str.strip()\<close>, \<^verbatim>\<open>str.lower()\<close>, \<^verbatim>\<open>str.split(',')\<close>, \<^verbatim>\<open>str.isdigit()\<close>, \<^verbatim>\<open>int(s)\<close>.\<close>

definition is_space :: "char \<Rightarrow> bool" where
  "is_space c \<longleftrightarrow>
     c \<in> set [CHR 0x09, CHR 0x0A, CHR 0x0B, CHR 0x0C, CHR 0x0D,
              CHR 0x1C, CHR 0x1D, CHR 0x1E, CHR 0x1F, CHR 0x20]"

definition str_strip :: "string \<Rightarrow> string" where
  "str_strip s = rev (dropWhile is_space (rev (dropWhile is_space s)))"

definition str_lower :: "string \<Rightarrow> string" where
  "str_lower s = map to_lower s"

fun str_split :: "char \<Rightarrow> string \<Rightarrow> string list" where
  "str_split sep [] = [[]]"
| "str_split sep (c # cs) =
     (if c = sep then [] # str_split sep cs
      else (case str_split sep cs of [] \<Rightarrow> [[c]] | part # parts \<Rightarrow> (c # part) # parts))"

definition str_isdigit :: "string \<Rightarrow> bool" where
  "str_isdigit s \<longleftrightarrow> s \<noteq> [] \<and> list_all is_digit s"

definition int_of_digits :: "string \<Rightarrow> int" where
  "int_of_digits s = foldl (\<lambda>n c. 10 * n + (int (of_char c) - 48)) 0 s"

text \<open>
  \<^verbatim>\<open>[email.strip() for email in text.split(',') if email.strip()]\<close>
\<close>

definition split_recipients :: "string \<Rightarrow> string list" where
  "split_recipients text = filter (\<lambda>e. e \<noteq> []) (map str_strip (str_split CHR '','' text))"



text \<open>\<^verbatim>\<open>input()\<close> takes the next line typed; at the end of the input it raises.\<close>

definition py_input :: "string list \<Rightarrow> py_error + (string \<times> string list)" where
  "py_input stdin = (case stdin of [] \<Rightarrow> Inl EOFError | line # others \<Rightarrow> Inr (line, others))"

text \<open>
  The answers that start the interactive delivery: \<^verbatim>\<open>y\<close>, \<^verbatim>\<open>yes\<close> and the two Korean
  ones, here as their UTF-8 bytes.
\<close>

definition yes_answers :: "string list" where
  "yes_answers = [''y'', ''yes'', [CHR 0xEC, CHR 0x98, CHR 0x88], [CHR 0xE3, CHR 0x85, CHR 0x87]]"


text \<open>The interactive branch: nothing typed is checked before it is used.\<close>

definition deliver_interactive ::
  "network \<Rightarrow> int \<Rightarrow> world \<Rightarrow> analyzer \<Rightarrow> string \<Rightarrow> string list
     \<Rightarrow> (py_error + unit) \<times> world" where
  "deliver_interactive nw now w self word_report stdin =
     (case py_input stdin of Inl e \<Rightarrow> (Inl e, w) | Inr (answer, in1) \<Rightarrow>
      if str_strip (str_lower answer) \<notin> set yes_answers then (Inr (), w)
      else
       (case py_input in1 of Inl e \<Rightarrow> (Inl e, w) | Inr (sender_email, in2) \<Rightarrow>
        case py_input in2 of Inl e \<Rightarrow> (Inl e, w) | Inr (sender_password, in3) \<Rightarrow>
        case py_input in3 of Inl e \<Rightarrow> (Inl e, w) | Inr (recipient_input, in4) \<Rightarrow>
        case py_input in4 of Inl e \<Rightarrow> (Inl e, w) | Inr (subject_input, in5) \<Rightarrow>
        case py_input in5 of Inl e \<Rightarrow> (Inl e, w) | Inr (smtp_input, in6) \<Rightarrow>
        case py_input in6 of Inl e \<Rightarrow> (Inl e, w) | Inr (port_line, in7) \<Rightarrow>
          (let recipient_emails = split_recipients recipient_input;
               custom_subject = str_strip subject_input;
               subj = (if custom_subject \<noteq> [] then Some (GivenSubject custom_subject) else None);
               smtp_server = (if str_strip smtp_input \<noteq> [] then str_strip smtp_input
                              else ''smtp.gmail.com'');
               port_input = str_strip port_line;
               smtp_port = (if str_isdigit port_input then int_of_digits port_input else 587)
           in case send_email_with_report nw now w self word_report sender_email
                     sender_password recipient_emails smtp_server smtp_port subj of
                (Inl e, w') \<Rightarrow> (Inl e, w')
              | (Inr success, w') \<Rightarrow> (Inr (), w'))))"


section \<open>A library to run the model on\<close>

text \<open>
  An instance of the library parameter, used to run the program on concrete tables: dates
  in the form \<^verbatim>\<open>YYYY-MM-DD\<close> are parsed to a day number (days since 1970-01-01), the
  ISO week is computed from the day number, and the argsort is a stable one.
\<close>

definition days_from_civil :: "int \<Rightarrow> int \<Rightarrow> int \<Rightarrow> int" where
  "days_from_civil y m d =
     (let y' = (if m \<le> 2 then y - 1 else y);
          era = y' div 400;
          yoe = y' - era * 400;
          doy = (153 * (if 2 < m then m - 3 else m + 9) + 2) div 5 + d - 1;
          doe = yoe * 365 + yoe div 4 - yoe div 100 + doy
      in era * 146097 + doe - 719468)"

definition year_of_days :: "int \<Rightarrow> int" where
  "year_of_days n =
     (let z = n + 719468;
          era = z div 146097;
          doe = z - era * 146097;
          yoe = (doe - doe div 1460 + doe div 36524 - doe div 146096) div 365;
          doy = doe - (365 * yoe + yoe div 4 - yoe div 100);
          mp = (5 * doy + 2) div 153;
          m = (if mp < 10 then mp + 3 else mp - 9)
      in yoe + era * 400 + (if m \<le> 2 then 1 else 0))"

definition iso_week :: "int \<Rightarrow> nat" where
  "iso_week n =
     (let weekday = (n + 3) mod 7;
          thursday = n - weekday + 3
      in nat ((thursday - days_from_civil (year_of_days thursday) 1 1) div 7 + 1))"

definition parse_iso_date :: "string \<Rightarrow> int option" where
  "parse_iso_date s =
     (if length s = 10 \<and> s ! 4 = CHR ''-'' \<and> s ! 7 = CHR ''-''
         \<and> list_all is_digit (take 4 s @ take 2 (drop 5 s) @ drop 8 s)
      then (let y = int_of_digits (take 4 s);
                m = int_of_digits (take 2 (drop 5 s));
                d = int_of_digits (drop 8 s)
            in if 1 \<le> m \<and> m \<le> 12 \<and> 1 \<le> d \<and> d \<le> 31 then Some (days_from_civil y m d)
               else None)
      else None)"

definition iso_cell :: "cell_date \<Rightarrow> cell_date option" where
  "iso_cell c =
     (case c of RawDate s \<Rightarrow> map_option Timestamp (parse_iso_date s) | _ \<Rightarrow> Some c)"

definition iso_to_datetime :: "cell_date list \<Rightarrow> py_error + cell_date list" where
  "iso_to_datetime col =
     (if list_all (\<lambda>c. iso_cell c \<noteq> None) col then Inr (map (\<lambda>c. the (iso_cell c)) col)
      else Inl ValueError)"

definition stable_argsort :: "num list \<Rightarrow> nat list" where
  "stable_argsort xs = map snd (sort_key fst (zip xs [0..<length xs]))"

definition reference_library :: library where
  "reference_library =
     \<lparr>to_datetime = iso_to_datetime, isocalendar_week = iso_week, argsort = stable_argsort\<rparr>"

text \<open>Rows and servers for the examples.\<close>

definition sale ::
  "string \<Rightarrow> string \<Rightarrow> string \<Rightarrow> string \<Rightarrow> string \<Rightarrow> num option \<Rightarrow> num \<Rightarrow> row" where
  "sale d pid name cat reg qty price =
     \<lparr>Date = RawDate d, ProductID = Some pid, ProductName = Some name, Category = Some cat,
      Region = Some reg, Salesperson = Some ''kim'', Quantity = qty, UnitPrice = Some price,
      TotalPrice = None, Week = None\<rparr>"

definition open_network :: network where
  "open_network =
     \<lparr>connect_ok = (\<lambda>host port. True), starttls_ok = True, login_ok = (\<lambda>user password. True),
      sendmail_ok = (\<lambda>m. True), quit_ok = True\<rparr>"

text \<open>An analyzer whose dictionary is filled, for running the renderer and the notifier.\<close>

definition sample_stats :: stats where
  "sample_stats = \<lparr>total_sales = 100, total_quantity = 10, avg_order_value = Some 50,
     total_orders = 2, date_start = Timestamp 20353, date_end = Timestamp 20354\<rparr>"

definition sample_group :: "'k \<Rightarrow> 'k agg_row" where
  "sample_group k = \<lparr>group_key = k, revenue_sum = 100, revenue_mean = Some 50, order_count = 2,
     quantity_sum = 10\<rparr>"

definition sample_results :: results where
  "sample_results = \<lparr>basic_stats = Some sample_stats,
     category_analysis = Some [sample_group ''Tools''],
     region_analysis = Some [sample_group ''East''],
     salesperson_analysis = Some [sample_group ''Kim''],
     top_products = Some [sample_group (''P1001'', ''Widget'')],
     daily_trends = Some [], weekly_analysis = Some []\<rparr>"

definition sample_analyzer :: "string \<Rightarrow> analyzer" where
  "sample_analyzer path = \<lparr>csv_file_path = path, df = None, cleaned_df = None,
     analysis_results = sample_results\<rparr>"

section \<open>Notions used in the statements and proofs\<close>


definition peer_count :: "table \<Rightarrow> string option \<Rightarrow> nat" where
  "peer_count t p = length (present (peer_quantities t p))"


text \<open>The cells of a row that the imputation and the total read.\<close>

definition core :: "row \<Rightarrow> string option \<times> num option \<times> num option" where
  "core r = (ProductID r, Quantity r, UnitPrice r)"


text \<open>
  A table with a placeholder row, a date in scientific notation and, for product
  \<^verbatim>\<open>P1001\<close>, the quantities 4 and 6 and one blank.
\<close>

definition scenario :: table where
  "scenario =
     [sale ''2025-09-20'' ''P0000'' ''placeholder'' ''tools'' ''east'' (Some 1) 1,
      sale ''2025-09-22'' ''P1001'' ''widget'' ''tools'' ''east'' (Some 4) 10,
      sale ''2025-09-22'' ''P2002'' ''gadget'' ''toys'' ''west'' (Some 9) 3,
      sale ''2.00E+05'' ''P1001'' ''widget'' ''tools'' ''west'' (Some 6) 10,
      sale ''2025-09-23'' ''P1001'' ''widget'' ''tools'' ''west'' None 10]"



text \<open>A file whose only row is a placeholder row: cleaning leaves no row.\<close>

definition only_placeholder_files :: filesystem where
  "only_placeholder_files =
     [''sales.csv'' \<mapsto> CsvFile [sale ''2025-09-20'' ''P0000'' ''placeholder'' ''tools'' ''east'' (Some 1) 1]]"

text \<open>The scalar block of a table without rows.\<close>

definition empty_stats :: stats where
  "empty_stats = \<lparr>total_sales = 0, total_quantity = 0, avg_order_value = None, total_orders = 0,
     date_start = NaT, date_end = NaT\<rparr>"

text \<open>Worlds, environments and files for the examples of delivery.\<close>

definition empty_world :: world where
  "empty_world = \<lparr>files = Map.empty, net_log = []\<rparr>"

definition office_files :: filesystem where
  "office_files = [''references/cicd_data.csv'' \<mapsto> CsvFile scenario]"



text \<open>What a run reports as aggregates: the dictionary, or the exception that ended the run.\<close>

definition aggregates :: "py_error + ((string \<times> results) \<times> filesystem \<times> analyzer) \<Rightarrow> py_error + results" where
  "aggregates outcome =
     (case outcome of Inl e \<Rightarrow> Inl e | Inr ((docx_path, res), fs', self) \<Rightarrow> Inr res)"

definition cluttered_files :: filesystem where
  "cluttered_files = office_files(''notes.docx'' \<mapsto> DocxFile
     \<lparr>doc_generated = 7, doc_stats = sample_stats, doc_category = [], doc_region = [],
      doc_salesperson = [], doc_products = []\<rparr>)"





section \<open>Rounding\<close>


lemma py_round_unique:
  assumes "\<bar>x - of_int k\<bar> < 1 / 2"
  shows "py_round x = k"
proof -
  have lo: "of_int k - 1 / 2 < x" and hi: "x < of_int k + 1 / 2"
    using assms by (auto simp: abs_if split: if_splits)
  have fl: "\<lfloor>x\<rfloor> = k \<or> \<lfloor>x\<rfloor> = k - 1"
  proof -
    have "of_int (k - 1) \<le> x" using lo by simp
    then have "k - 1 \<le> \<lfloor>x\<rfloor>" by (simp only: le_floor_iff)
    moreover have "x < of_int (k + 1)" using hi by simp
    then have "\<lfloor>x\<rfloor> < k + 1" by (simp only: floor_less_iff)
    ultimately show ?thesis by linarith
  qed
  then show ?thesis
  proof
    assume "\<lfloor>x\<rfloor> = k"
    then show ?thesis using hi by (simp add: py_round_def Let_def)
  next
    assume "\<lfloor>x\<rfloor> = k - 1"
    then show ?thesis using lo by (simp add: py_round_def Let_def)
  qed
qed

lemma py_round_of_int [simp]: "py_round (of_int k) = k"
  by (rule py_round_unique) simp


section \<open>The path of the report\<close>

lemma replace_csv_absent: "\<not> str_contains ''.csv'' s \<Longrightarrow> replace_csv new s = s"
  by (induction s) auto

lemma starts_with_csv_append:
  "starts_with ''.csv'' (xs @ ''.csv'' @ ys) \<longleftrightarrow> xs = [] \<or> starts_with ''.csv'' xs"
proof (cases "4 \<le> length xs")
  case True
  then show ?thesis by (auto simp: starts_with_def)
next
  case False
  then have "length xs = 0 \<or> length xs = Suc 0 \<or> length xs = Suc (Suc 0)
      \<or> length xs = Suc (Suc (Suc 0))" by arith
  then consider "xs = []" | a where "xs = [a]" | a b where "xs = [a, b]"
    | a b c where "xs = [a, b, c]"
    by (auto simp: length_Suc_conv)
  then show ?thesis
    by cases (auto simp: starts_with_def)
qed

lemma replace_csv_append:
  "replace_csv new (xs @ ''.csv'' @ ys) = replace_csv new xs @ new @ replace_csv new ys"
proof (induction new xs rule: replace_csv.induct)
  case (1 new)
  show ?case by (simp add: starts_with_def)
next
  case (2 new c cs)
  show ?case
  proof (cases "starts_with ''.csv'' (c # cs)")
    case True
    then have tk: "take 3 cs = ''csv''" by (simp add: starts_with_def numeral_3_eq_3)
    have len: "3 \<le> length cs" using arg_cong [OF tk, of length] by simp
    have "starts_with ''.csv'' ((c # cs) @ ''.csv'' @ ys)"
      using True by (simp only: starts_with_csv_append) simp
    then have "replace_csv new ((c # cs) @ ''.csv'' @ ys)
        = new @ replace_csv new (drop 3 (cs @ ''.csv'' @ ys))" by simp
    also have "drop 3 (cs @ ''.csv'' @ ys) = drop 3 cs @ ''.csv'' @ ys"
      using len by simp
    finally show ?thesis using True 2 by simp
  next
    case False
    then have "\<not> starts_with ''.csv'' ((c # cs) @ ''.csv'' @ ys)"
      by (simp only: starts_with_csv_append) simp
    then have "replace_csv new ((c # cs) @ ''.csv'' @ ys)
        = c # replace_csv new (cs @ ''.csv'' @ ys)" by simp
    then show ?thesis using False 2 by simp
  qed
qed
lemma generate_word_report_path:
  assumes "generate_word_report now fs self = Inr (p, fs')"
  shows "p = docx_path_of (csv_file_path self)"
    and "\<exists>doc. fs' = fs(p \<mapsto> DocxFile doc)"
  using assms
  by (auto simp: generate_word_report_def Let_def split: if_splits option.splits sum.splits)

text \<open>
  C9. The report's path is the input path with every occurrence of \<^verbatim>\<open>.csv\<close> replaced by
  \<^verbatim>\<open>_sales_report.docx\<close>, and the report is saved there: a path without \<^verbatim>\<open>.csv\<close> is
  its own report path, so the report is written over the input file, and around any
  occurrence of \<^verbatim>\<open>.csv\<close> the replacement goes on to the left and to the right of it.
\<close>

theorem report_path_replaces_every_csv:
  "generate_word_report now fs self = Inr (p, fs') \<Longrightarrow>
     p = replace_csv ''_sales_report.docx'' (csv_file_path self)
     \<and> (\<exists>doc. fs' = fs(p \<mapsto> DocxFile doc))
     \<and> (\<not> str_contains ''.csv'' (csv_file_path self) \<longrightarrow> p = csv_file_path self)
     \<and> (csv_file_path self = xs @ ''.csv'' @ ys \<longrightarrow>
          p = replace_csv ''_sales_report.docx'' xs @ ''_sales_report.docx''
              @ replace_csv ''_sales_report.docx'' ys)"
proof -
  assume run: "generate_word_report now fs self = Inr (p, fs')"
  have p: "p = replace_csv ''_sales_report.docx'' (csv_file_path self)"
    using generate_word_report_path(1) [OF run] by (simp only: docx_path_of_def)
  have saved: "\<exists>doc. fs' = fs(p \<mapsto> DocxFile doc)"
    by (rule generate_word_report_path(2) [OF run])
  have same: "\<not> str_contains ''.csv'' (csv_file_path self) \<longrightarrow> p = csv_file_path self"
    using p replace_csv_absent [of "csv_file_path self" "''_sales_report.docx''"] by blast
  have every: "csv_file_path self = xs @ ''.csv'' @ ys \<longrightarrow>
      p = replace_csv ''_sales_report.docx'' xs @ ''_sales_report.docx''
          @ replace_csv ''_sales_report.docx'' ys"
  proof
    assume "csv_file_path self = xs @ ''.csv'' @ ys"
    then have "p = replace_csv ''_sales_report.docx'' (xs @ ''.csv'' @ ys)"
      using p by (simp only:)
    then show "p = replace_csv ''_sales_report.docx'' xs @ ''_sales_report.docx''
          @ replace_csv ''_sales_report.docx'' ys"
      by (simp only: replace_csv_append)
  qed
  from p saved same every show ?thesis by (intro conjI)
qed

lemma sample_report:
  "generate_word_report now fs (sample_analyzer path) =
     Inr (docx_path_of path, fs(docx_path_of path \<mapsto> DocxFile
       \<lparr>doc_generated = now, doc_stats = sample_stats, doc_category = [sample_group ''Tools''],
        doc_region = [sample_group ''East''], doc_salesperson = [sample_group ''Kim''],
        doc_products = [sample_group (''P1001'', ''Widget'')]\<rparr>))"
  by (simp add: generate_word_report_def sample_analyzer_def sample_results_def no_results_def
      sample_stats_def strftime_def first_row_def Let_def)

theorem report_path_replaces_every_csv_witness:
  "(\<exists>p fs'. generate_word_report 0 Map.empty (sample_analyzer ''data'') = Inr (p, fs')
      \<and> \<not> str_contains ''.csv'' ''data'' \<and> p = ''data'' \<and> fs' ''data'' \<noteq> None)
   \<and> (\<exists>p fs'. generate_word_report 0 Map.empty (sample_analyzer ''a.csv.csv'') = Inr (p, fs')
      \<and> p = ''a_sales_report.docx_sales_report.docx'')"
proof -
  have b: "\<not> str_contains ''.csv'' ''data''"
    by (simp add: starts_with_def)
  have c: "csv_file_path (sample_analyzer ''a.csv.csv'') = ''a'' @ ''.csv'' @ ''.csv''"
    by (simp add: sample_analyzer_def)
  have d: "csv_file_path (sample_analyzer ''data'') = ''data''"
    by (simp add: sample_analyzer_def)
  note w1 = report_path_replaces_every_csv [OF sample_report [of 0 Map.empty "''data''"]]
  note w2 = report_path_replaces_every_csv [OF sample_report [of 0 Map.empty "''a.csv.csv''"],
      of "''a''" "''.csv''"]
  have p1: "docx_path_of ''data'' = ''data''"
    using w1 b by (simp only: d) simp
  have p2: "docx_path_of ''a.csv.csv'' = ''a_sales_report.docx_sales_report.docx''"
    using w2 c by (simp add: starts_with_def)
  show ?thesis
    by (simp only: sample_report p1 p2) (simp add: b [simplified])
qed

section \<open>The imputation loop in closed form\<close>


lemma present_append [simp]: "present (xs @ ys) = present xs @ present ys"
  by (simp add: present_def)

lemma present_Cons [simp]:
  "present (x # xs) = (case x of None \<Rightarrow> present xs | Some v \<Rightarrow> v # present xs)"
  by (simp add: present_def split: option.splits)

lemma present_Nil [simp]: "present [] = []"
  by (simp add: present_def)




lemma peer_count_None [simp]: "peer_count t None = 0"
  by (simp add: peer_count_def peer_quantities_def is_peer_def)



section \<open>Cleaning\<close>













lemma length_fill_salesperson [simp]: "length (fill_salesperson t) = length t"
  by (simp add: fill_salesperson_def)

lemma nth_fill_salesperson:
  "i < length t \<Longrightarrow> fill_salesperson t ! i
     = (if missing_sales (t ! i) then (t ! i)\<lparr>Salesperson := Some ''Unknown''\<rparr> else t ! i)"
  by (auto simp: fill_salesperson_def list_ex_iff)

lemma core_fill_salesperson: "map core (fill_salesperson t) = map core t"
  by (simp add: fill_salesperson_def core_def)







lemma ProductID_fill_row [simp]: "ProductID (fill_row t0 r) = ProductID r"
  by (simp add: fill_row_def split: option.splits)




section \<open>The imputation does not depend on the order of the rows\<close>







section \<open>An empty cleaned table\<close>

lemma is_argsort_stable: "is_argsort stable_argsort"
  unfolding is_argsort_def
proof (intro allI conjI)
  fix xs :: "num list"
  define zs where "zs = zip xs [0..<length xs]"
  have "mset (stable_argsort xs) = image_mset snd (mset zs)"
    by (simp add: stable_argsort_def zs_def)
  also have "\<dots> = mset (map snd zs)" by simp
  also have "map snd zs = [0..<length xs]" by (simp add: zs_def)
  finally show "mset (stable_argsort xs) = mset [0..<length xs]" .
  have pairs: "xs ! snd z = fst z" if "z \<in> set zs" for z
    using that by (auto simp: zs_def set_zip)
  have "map (\<lambda>i. xs ! i) (stable_argsort xs) = map (\<lambda>z. xs ! snd z) (sort_key fst zs)"
    by (simp add: stable_argsort_def zs_def comp_def)
  also have "\<dots> = map fst (sort_key fst zs)"
    by (rule map_cong) (simp_all add: pairs)
  finally show "sorted (map (\<lambda>i. xs ! i) (stable_argsort xs))"
    by simp
qed

lemma is_argsort_reference: "is_argsort (argsort reference_library)"
  by (simp add: reference_library_def is_argsort_stable)

lemma analyze_data_results:
  "cleaned_df self = Some t \<Longrightarrow>
     analyze_data lib self = Inr (self\<lparr>cleaned_df := Some (add_week lib t),
                                      analysis_results := analyze_table lib t\<rparr>)"
  by (cases "analysis_results self") (simp add: analyze_data_def analyze_table_def Let_def)

lemma argsort_Nil: "is_argsort f \<Longrightarrow> f [] = []"
  by (auto simp: is_argsort_def dest: spec [of _ "[]"])

lemma sort_values_desc_Nil: "is_argsort (argsort lib) \<Longrightarrow> sort_values_desc lib [] = []"
  by (simp add: sort_values_desc_def nargsort_desc_def argsort_Nil)

lemma group_agg_Nil: "group_agg key [] = []"
  by (simp add: group_agg_def group_keys_def)

lemma compute_basic_stats_Nil: "compute_basic_stats [] = empty_stats"
  by (simp add: compute_basic_stats_def empty_stats_def series_sum_def series_mean_def
      date_min_def date_max_def timestamps_def)

text \<open>
  C5, as the code has it. \<^verbatim>\<open>analyze_data\<close> raises only when there is no cleaned table at
  all. On a cleaned table without rows it returns: the order count and both sums are 0, the
  mean and the dates are missing, the grouped tables are empty. The run ends afterwards, in
  \<^verbatim>\<open>generate_word_report\<close>, with the ValueError that formatting a missing date raises.
\<close>

theorem empty_table_is_aggregated:
  assumes "load_and_clean_data lib fs self = Inr s1"
    and "cleaned_df s1 = Some []"
    and "is_argsort (argsort lib)"
  shows "\<exists>s2. analyze_data lib s1 = Inr s2
           \<and> basic_stats (analysis_results s2) = Some empty_stats
           \<and> category_analysis (analysis_results s2) = Some []
           \<and> region_analysis (analysis_results s2) = Some []
           \<and> salesperson_analysis (analysis_results s2) = Some []
           \<and> top_products (analysis_results s2) = Some []
           \<and> generate_word_report now fs s2 = Inl ValueError
           \<and> run_full_analysis lib now fs self = Inl ValueError"
proof -
  define s2 where "s2 = s1\<lparr>cleaned_df := Some (add_week lib []),
      analysis_results := analyze_table lib []\<rparr>"
  have a: "analyze_data lib s1 = Inr s2"
    unfolding s2_def by (rule analyze_data_results [OF assms(2)])
  have r: "analysis_results s2 = analyze_table lib []"
    by (simp add: s2_def)
  have b: "basic_stats (analysis_results s2) = Some empty_stats"
    by (simp add: r analyze_table_def compute_basic_stats_Nil)
  have g: "generate_word_report now fs s2 = Inl ValueError"
    using b by (auto simp: generate_word_report_def Let_def no_results_def empty_stats_def
        strftime_def)
  have "run_full_analysis lib now fs self = Inl ValueError"
    by (simp add: run_full_analysis_def assms(1) a g)
  then show ?thesis
    using a b g assms(3)
    by (simp add: r analyze_table_def group_agg_Nil sort_values_desc_Nil)
qed

lemma only_placeholder_loads:
  "\<not> isl (load_and_clean_data reference_library only_placeholder_files (init_analyzer ''sales.csv''))
   \<and> cleaned_df (projr (load_and_clean_data reference_library only_placeholder_files
        (init_analyzer ''sales.csv''))) = Some []"
  by code_simp

theorem empty_table_is_aggregated_witness:
  "\<exists>s1 s2. load_and_clean_data reference_library only_placeholder_files
               (init_analyzer ''sales.csv'') = Inr s1
     \<and> cleaned_df s1 = Some []
     \<and> analyze_data reference_library s1 = Inr s2
     \<and> basic_stats (analysis_results s2) = Some empty_stats
     \<and> top_products (analysis_results s2) = Some []
     \<and> run_full_analysis reference_library 0 only_placeholder_files
          (init_analyzer ''sales.csv'') = Inl ValueError"
proof -
  define s1 where "s1 = projr (load_and_clean_data reference_library only_placeholder_files
      (init_analyzer ''sales.csv''))"
  have run: "load_and_clean_data reference_library only_placeholder_files
      (init_analyzer ''sales.csv'') = Inr s1"
    and empty: "cleaned_df s1 = Some []"
    using only_placeholder_loads by (simp_all add: s1_def)
  from empty_table_is_aggregated [OF run empty is_argsort_reference, of 0]
  show ?thesis using run empty by blast
qed

text \<open>
  C5, as stated, fails: for the file with one placeholder row the cleaned table is empty and
  \<^verbatim>\<open>analyze_data\<close> returns.
\<close>

theorem empty_table_raises_in_aggregation_counterexample:
  "cleaned_df (projr (load_and_clean_data reference_library only_placeholder_files
      (init_analyzer ''sales.csv''))) = Some []
   \<and> \<not> isl (analyze_data reference_library
        (projr (load_and_clean_data reference_library only_placeholder_files
           (init_analyzer ''sales.csv''))))"
  by code_simp

section \<open>Delivery and determinism\<close>

text \<open>
  C6, as the code has it. With no file at the document's path, \<^verbatim>\<open>send_email_with_report\<close>
  returns \<^verbatim>\<open>False\<close>: the FileNotFoundError is raised inside the \<^verbatim>\<open>try\<close> block and caught
  there. The world is left as it was, so no call to the SMTP server has been made.
\<close>

theorem missing_attachment_returns_false:
  "files w docx_file_path = None \<Longrightarrow>
     send_email_with_report nw now w self docx_file_path sender_email sender_password
       recipient_emails smtp_server smtp_port subj = (Inr False, w)"
  by (simp add: send_email_with_report_def send_email_try_def)

theorem missing_attachment_returns_false_witness:
  "files empty_world ''report.docx'' = None
   \<and> send_email_with_report open_network 0 empty_world (sample_analyzer ''sales.csv'')
        ''report.docx'' ''analyst@example.com'' ''app-password'' [''boss@example.com'']
        ''smtp.gmail.com'' 587 None = (Inr False, empty_world)
   \<and> net_log empty_world = []"
  using missing_attachment_returns_false [of empty_world "''report.docx''" open_network 0
      "sample_analyzer ''sales.csv''" "''analyst@example.com''" "''app-password''"
      "[''boss@example.com'']" "''smtp.gmail.com''" 587 None]
  by (simp add: empty_world_def)

text \<open>
  C6, as stated, fails: at a path without a file nothing is raised to the caller; the call
  returns \<^verbatim>\<open>False\<close>.
\<close>

theorem missing_attachment_raises_counterexample:
  "files empty_world ''report.docx'' = None
   \<and> \<not> isl (fst (send_email_with_report open_network 0 empty_world (sample_analyzer ''sales.csv'')
        ''report.docx'' ''analyst@example.com'' ''app-password'' [''boss@example.com'']
        ''smtp.gmail.com'' 587 None))
   \<and> fst (send_email_with_report open_network 0 empty_world (sample_analyzer ''sales.csv'')
        ''report.docx'' ''analyst@example.com'' ''app-password'' [''boss@example.com'']
        ''smtp.gmail.com'' 587 None) = Inr False"
  by (simp add: send_email_with_report_def send_email_try_def empty_world_def)







lemma load_and_clean_data_cleaned:
  "map_sum id cleaned_df (load_and_clean_data lib fs self)
     = (case read_csv fs (csv_file_path self) of Inl e \<Rightarrow> Inl e
        | Inr t \<Rightarrow> map_sum id Some (clean_table lib t))"
  by (simp add: load_and_clean_data_def split: sum.splits)

lemma generate_word_report_outcome:
  "map_sum id (\<lambda>x. ()) (generate_word_report now fs self)
     = map_sum id (\<lambda>x. ()) (generate_word_report now' fs' (self'\<lparr>analysis_results := analysis_results self\<rparr>))"
  by (simp add: generate_word_report_def Let_def split: option.splits sum.splits)

lemma generate_word_report_document:
  assumes "generate_word_report now1 fs1 s1 = Inr (p1, f1)"
    and "generate_word_report now2 fs2 s2 = Inr (p2, f2)"
    and "analysis_results s2 = analysis_results s1"
    and "csv_file_path s2 = csv_file_path s1"
  shows "p2 = p1 \<and> (\<exists>d. f1 p1 = Some (DocxFile d) \<and> f2 p1 = Some (DocxFile (d\<lparr>doc_generated := now2\<rparr>)))"
  using assms
  by (auto simp: generate_word_report_def Let_def split: if_splits option.splits sum.splits)

text \<open>
  C8. The aggregates of a run (or the exception that ends it) are determined by the table
  in the input file: two runs on the same path with the same file content agree, whatever
  the clock reads, whatever else is on disk, and whatever the analyzer object held before.
  When both runs return, they name the same report path and the same dictionary, and the
  two reports written differ at most in the time of generation.
\<close>

theorem aggregates_depend_on_input_only:
  assumes "csv_file_path self2 = csv_file_path self1"
    and "fs2 (csv_file_path self1) = fs1 (csv_file_path self1)"
  shows "aggregates (run_full_analysis lib now2 fs2 self2)
           = aggregates (run_full_analysis lib now1 fs1 self1)
         \<and> (run_full_analysis lib now1 fs1 self1 = Inr ((p1, r1), f1, s1) \<longrightarrow>
            run_full_analysis lib now2 fs2 self2 = Inr ((p2, r2), f2, s2) \<longrightarrow>
              p2 = p1 \<and> r2 = r1
              \<and> (\<exists>d. f1 p1 = Some (DocxFile d)
                     \<and> f2 p1 = Some (DocxFile (d\<lparr>doc_generated := now2\<rparr>))))"
proof -
  have rd: "read_csv fs2 (csv_file_path self2) = read_csv fs1 (csv_file_path self1)"
    using assms by (simp add: read_csv_def)
  show ?thesis
  proof (cases "read_csv fs1 (csv_file_path self1)")
    case (Inl e)
    then show ?thesis
      using rd by (simp add: aggregates_def run_full_analysis_def load_and_clean_data_def)
  next
    case (Inr t)
    show ?thesis
    proof (cases "clean_table lib t")
      case (Inl e)
      then show ?thesis
        using rd Inr by (simp add: aggregates_def run_full_analysis_def load_and_clean_data_def)
    next
      case c: (Inr c)
      define a1 where "a1 = self1\<lparr>df := Some t, cleaned_df := Some (add_week lib c),
                 analysis_results := analyze_table lib c\<rparr>"
      define a2 where "a2 = self2\<lparr>df := Some t, cleaned_df := Some (add_week lib c),
                 analysis_results := analyze_table lib c\<rparr>"
      have l1: "load_and_clean_data lib fs1 self1 = Inr (self1\<lparr>df := Some t, cleaned_df := Some c\<rparr>)"
        and l2: "load_and_clean_data lib fs2 self2 = Inr (self2\<lparr>df := Some t, cleaned_df := Some c\<rparr>)"
        using rd Inr c by (simp_all add: load_and_clean_data_def)
      have an1: "analyze_data lib (self1\<lparr>df := Some t, cleaned_df := Some c\<rparr>) = Inr a1"
        and an2: "analyze_data lib (self2\<lparr>df := Some t, cleaned_df := Some c\<rparr>) = Inr a2"
        by (simp_all add: analyze_data_results a1_def a2_def)
      have r1: "run_full_analysis lib now1 fs1 self1
          = (case generate_word_report now1 fs1 a1 of Inl e \<Rightarrow> Inl e
             | Inr (p, f) \<Rightarrow> Inr ((p, analyze_table lib c), f, a1))"
        and r2: "run_full_analysis lib now2 fs2 self2
          = (case generate_word_report now2 fs2 a2 of Inl e \<Rightarrow> Inl e
             | Inr (p, f) \<Rightarrow> Inr ((p, analyze_table lib c), f, a2))"
        by (auto simp: run_full_analysis_def l1 l2 an1 an2 a1_def a2_def split: sum.splits)
      have same: "analysis_results a2 = analysis_results a1" "csv_file_path a2 = csv_file_path a1"
        using assms(1) by (simp_all add: a1_def a2_def)
      have agg: "aggregates (run_full_analysis lib now2 fs2 self2)
           = aggregates (run_full_analysis lib now1 fs1 self1)"
      proof -
        have "map_sum id (\<lambda>x. ()) (generate_word_report now1 fs1 a1)
            = map_sum id (\<lambda>x. ()) (generate_word_report now2 fs2 a2)"
          using generate_word_report_outcome [of now1 fs1 a1 now2 fs2 a2]
          by (simp add: same(1) [symmetric])
        then show ?thesis
          by (auto simp: aggregates_def r1 r2 split: sum.splits)
      qed
      have doc: "p2 = p1 \<and> r2 = r1
              \<and> (\<exists>d. f1 p1 = Some (DocxFile d)
                     \<and> f2 p1 = Some (DocxFile (d\<lparr>doc_generated := now2\<rparr>)))"
        if "run_full_analysis lib now1 fs1 self1 = Inr ((p1, r1), f1, s1)"
          and "run_full_analysis lib now2 fs2 self2 = Inr ((p2, r2), f2, s2)"
      proof -
        from that have g1: "generate_word_report now1 fs1 a1 = Inr (p1, f1)"
          and g2: "generate_word_report now2 fs2 a2 = Inr (p2, f2)"
          and r: "r1 = analyze_table lib c" "r2 = analyze_table lib c"
          by (auto simp: r1 r2 split: sum.splits)
        from generate_word_report_document [OF g1 g2 same] r show ?thesis by simp
      qed
      from agg doc show ?thesis by blast
    qed
  qed
qed

lemma office_runs_return:
  "\<not> isl (run_full_analysis reference_library 0 office_files
      (init_analyzer ''references/cicd_data.csv''))
   \<and> \<not> isl (run_full_analysis reference_library 86400 cluttered_files
      (sample_analyzer ''references/cicd_data.csv''))"
  by code_simp

theorem aggregates_depend_on_input_only_witness:
  "csv_file_path (sample_analyzer ''references/cicd_data.csv'')
     = csv_file_path (init_analyzer ''references/cicd_data.csv'')
   \<and> cluttered_files ''references/cicd_data.csv'' = office_files ''references/cicd_data.csv''
   \<and> (\<exists>p r f1 s1 f2 s2 d.
        run_full_analysis reference_library 0 office_files
          (init_analyzer ''references/cicd_data.csv'') = Inr ((p, r), f1, s1)
      \<and> run_full_analysis reference_library 86400 cluttered_files
          (sample_analyzer ''references/cicd_data.csv'') = Inr ((p, r), f2, s2)
      \<and> f1 p = Some (DocxFile d)
      \<and> f2 p = Some (DocxFile (d\<lparr>doc_generated := 86400\<rparr>)))
   \<and> aggregates (run_full_analysis reference_library 86400 cluttered_files
          (sample_analyzer ''references/cicd_data.csv''))
     = aggregates (run_full_analysis reference_library 0 office_files
          (init_analyzer ''references/cicd_data.csv''))"
proof -
  have p: "csv_file_path (sample_analyzer ''references/cicd_data.csv'')
     = csv_file_path (init_analyzer ''references/cicd_data.csv'')"
    by (simp add: sample_analyzer_def init_analyzer_def)
  have f: "cluttered_files (csv_file_path (init_analyzer ''references/cicd_data.csv''))
     = office_files (csv_file_path (init_analyzer ''references/cicd_data.csv''))"
    by (simp add: cluttered_files_def init_analyzer_def)
  obtain p1 r1 f1 s1 where run1: "run_full_analysis reference_library 0 office_files
      (init_analyzer ''references/cicd_data.csv'') = Inr ((p1, r1), f1, s1)"
    using office_runs_return
    by (cases "run_full_analysis reference_library 0 office_files
      (init_analyzer ''references/cicd_data.csv'')") auto
  obtain p2 r2 f2 s2 where run2: "run_full_analysis reference_library 86400 cluttered_files
      (sample_analyzer ''references/cicd_data.csv'') = Inr ((p2, r2), f2, s2)"
    using office_runs_return
    by (cases "run_full_analysis reference_library 86400 cluttered_files
      (sample_analyzer ''references/cicd_data.csv'')") auto
  note th = aggregates_depend_on_input_only [of "sample_analyzer ''references/cicd_data.csv''"
      "init_analyzer ''references/cicd_data.csv''" cluttered_files office_files
      reference_library 86400 0 p1 r1 f1 s1 p2 r2 f2 s2, OF p f]
  have agg: "aggregates (run_full_analysis reference_library 86400 cluttered_files
          (sample_analyzer ''references/cicd_data.csv''))
     = aggregates (run_full_analysis reference_library 0 office_files
          (init_analyzer ''references/cicd_data.csv''))"
    by (rule th [THEN conjunct1])
  have same: "p2 = p1 \<and> r2 = r1
      \<and> (\<exists>d. f1 p1 = Some (DocxFile d) \<and> f2 p1 = Some (DocxFile (d\<lparr>doc_generated := 86400\<rparr>)))"
    by (rule th [THEN conjunct2, rule_format, OF run1 run2])
  then obtain d where "f1 p1 = Some (DocxFile d)"
    and "f2 p1 = Some (DocxFile (d\<lparr>doc_generated := 86400\<rparr>))"
    and "run_full_analysis reference_library 86400 cluttered_files
      (sample_analyzer ''references/cicd_data.csv'') = Inr ((p1, r1), f2, s2)"
    using run2 by auto
  then have "\<exists>p r f1 s1 f2 s2 d.
        run_full_analysis reference_library 0 office_files
          (init_analyzer ''references/cicd_data.csv'') = Inr ((p, r), f1, s1)
      \<and> run_full_analysis reference_library 86400 cluttered_files
          (sample_analyzer ''references/cicd_data.csv'') = Inr ((p, r), f2, s2)
      \<and> f1 p = Some (DocxFile d)
      \<and> f2 p = Some (DocxFile (d\<lparr>doc_generated := 86400\<rparr>))"
    using run1 by blast
  moreover have "cluttered_files ''references/cicd_data.csv'' = office_files ''references/cicd_data.csv''"
    using f by (simp add: init_analyzer_def)
  ultimately show ?thesis
    using p agg by blast
qed

lemma interactive_sender_is_not_validated:
  "\<not> email_match ''analyst.example.com''
   \<and> net_log (snd (deliver_interactive open_network 0
        \<lparr>files = [''report.docx'' \<mapsto> CsvFile []], net_log = []\<rparr>
        (sample_analyzer ''sales.csv'') ''report.docx''
        [''y'', ''analyst.example.com'', ''app-password'', ''boss@example.com'', [], [], []]))
     \<noteq> []"
  by code_simp

section \<open>Sorting and grouping\<close>

lemma argsort_set: "is_argsort f \<Longrightarrow> set (f xs) = {0..<length xs}"
  by (metis is_argsort_def set_mset_mset set_upt)












section \<open>The top-products table\<close>






section \<open>The sum property\<close>













section \<open>Equal revenues under a stable argsort\<close>

text \<open>
  With a stable argsort, \<^verbatim>\<open>sort_values\<close> leaves rows of equal revenue in the order the
  grouping gave them. The contract of an argsort alone does not say so.
\<close>

lemma insort_key_map_inj:
  "insort_key f (g x) (map g ys) = map g (insort_key (\<lambda>y. f (g y)) x ys)"
  by (induction ys) auto

lemma sort_key_map_inj: "sort_key f (map g xs) = map g (sort_key (\<lambda>y. f (g y)) xs)"
  by (induction xs) (auto simp: insort_key_map_inj)

lemma stable_argsort_sorts:
  "map (\<lambda>i. rows ! i) (stable_argsort (map k rows)) = sort_key k rows"
proof -
  define n where "n = length rows"
  have zip: "zip (map k rows) [0..<n] = map (\<lambda>i. (k (rows ! i), i)) [0..<n]"
    by (rule nth_equalityI) (simp_all add: n_def)
  have "map (\<lambda>i. rows ! i) (stable_argsort (map k rows))
      = map (\<lambda>i. rows ! i) (sort_key (\<lambda>i. k (rows ! i)) [0..<n])"
    by (simp add: stable_argsort_def zip sort_key_map_inj comp_def flip: n_def)
  also have "\<dots> = sort_key k (map (\<lambda>i. rows ! i) [0..<n])"
    by (simp add: sort_key_map_inj)
  finally show ?thesis
    by (simp add: n_def map_nth)
qed

lemma sort_values_desc_stable:
  assumes "argsort lib = stable_argsort"
  shows "sort_values_desc lib rows = rev (sort_key revenue_sum (rev rows))"
proof -
  have a: "is_argsort (argsort lib)"
    by (simp add: assms is_argsort_stable)
  define n where "n = length rows"
  define perm where "perm = argsort lib (rev (map revenue_sum rows))"
  have in_range: "j < n" if "j \<in> set perm" for j
    using that argsort_set [OF a, of "rev (map revenue_sum rows)"] by (simp add: perm_def n_def)
  have "sort_values_desc lib rows = rev (map (\<lambda>j. rows ! (rev [0..<n] ! j)) perm)"
    by (simp add: sort_values_desc_def nargsort_desc_def Let_def rev_map comp_def perm_def n_def)
  also have "map (\<lambda>j. rows ! (rev [0..<n] ! j)) perm = map (\<lambda>j. rev rows ! j) perm"
    by (rule map_cong) (auto simp: rev_nth n_def dest: in_range)
  also have "\<dots> = sort_key revenue_sum (rev rows)"
    using stable_argsort_sorts [of "rev rows" revenue_sum]
    by (simp add: perm_def assms rev_map)
  finally show ?thesis .
qed

lemma ties_keep_grouping_order_if_stable:
  assumes "argsort lib = stable_argsort"
  shows "filter (\<lambda>a. revenue_sum a = v) (sort_values_desc lib rows)
       = filter (\<lambda>a. revenue_sum a = v) rows"
proof -
  have "filter (\<lambda>a. revenue_sum a = v) (sort_values_desc lib rows)
      = rev (filter (\<lambda>a. revenue_sum a = v) (sort_key revenue_sum (rev rows)))"
    by (simp add: sort_values_desc_stable [OF assms] rev_filter)
  also have "\<dots> = rev (filter (\<lambda>a. revenue_sum a = v) (rev rows))"
    by (simp only: sort_key_stable)
  finally show ?thesis
    by (simp add: rev_filter)
qed

end
